theory Spec2Isabelle
  imports Main
begin

section \<open>The capture-and-review client (App component)\<close>

text \<open>
  The component of \<^verbatim>\<open>src/frontend\<close> (the \<^verbatim>\<open>App\<close> function) keeps six pieces of React
  state and talks to three HTTP endpoints. The model below keeps the React state as a
  record, adds to it the parts of the page and of the platform the handlers touch (the
  video element's stream, the canvas size, the file input's value) and the traces of what
  the handlers do to the outside world (alerts, console output, network exchanges, camera
  requests, timers). Every handler is a function from state to state; what the platform
  answers (the response of a fetch, the outcome of a camera request, the blob a canvas
  encodes) is an argument of the handler.

  A handler below is the whole source function: an asynchronous one takes the answer of
  its request as an argument and runs from the call to its last statement. The page does
  not stop other handlers from running between the call and the answer (no button is
  disabled and no handler reads \<^verbatim>\<open>loading\<close>), so \<^verbatim>\<open>processImageBlob\<close> is also
  given in its two halves, before and after its \<^verbatim>\<open>await\<close>.
\<close>

subsection \<open>Values\<close>

text \<open>
  What \<^verbatim>\<open>res.json()\<close> can return. Numbers are kept as integers: the component only
  ever tests a value for truthiness, which for a number is the test against zero.
\<close>

datatype json =
    JNull
  | JBool bool
  | JNum int
  | JStr string
  | JArr "json list"
  | JObj "(string \<times> json) list"

text \<open>JavaScript truthiness, as used by \<^verbatim>\<open>!previewData\<close> and \<^verbatim>\<open>previewData ? a : b\<close>.\<close>

fun truthy :: "json \<Rightarrow> bool" where
  "truthy JNull = False"
| "truthy (JBool b) = b"
| "truthy (JNum n) = (n \<noteq> 0)"
| "truthy (JStr s) = (s \<noteq> [])"
| "truthy (JArr xs) = True"
| "truthy (JObj kvs) = True"

text \<open>A \<^verbatim>\<open>Blob\<close> or \<^verbatim>\<open>File\<close>: its bytes. A blob object is always truthy.\<close>

datatype blob = Blob "nat list"

type_synonym js_error = string

text \<open>
  A \<^verbatim>\<open>FormData\<close> body is the list of its appended fields; a request is a \<^verbatim>\<open>fetch\<close>
  call with its URL.
\<close>

datatype part = FilePart blob string | TextPart string

datatype request = Post string "(string \<times> part) list" | Get string

text \<open>
  The outcome of \<^verbatim>\<open>await fetch(...)\<close>: the promise rejects (the request could not be
  sent), or it resolves to a response with its \<^verbatim>\<open>ok\<close> flag and its body, \<open>None\<close> when
  the body does not parse as JSON (then \<^verbatim>\<open>res.json()\<close> throws).
\<close>

datatype fetch_result = NetworkError | Responded bool "json option"

text \<open>
  The outcome of a call of \<^verbatim>\<open>initializeCamera\<close>: the media-devices API is missing, or
  \<^verbatim>\<open>getUserMedia\<close> rejects with an error (permission denied, no device), or it resolves
  to a stream.
\<close>

datatype camera_env = Unsupported | Denied js_error | Granted nat

subsection \<open>State\<close>

record state =
  loading :: bool
  previewData :: json
  capturedBlob :: "blob option"
  showHistory :: bool
  logs :: json
  selectedModel :: string
  srcObject :: "nat option"
  canvasSize :: "nat \<times> nat"
  fileInputValue :: string
  alerts :: "string list"
  console :: "js_error list"
  network :: "(request \<times> fetch_result) list"
  cameraRequests :: nat
  pendingTimers :: nat
  unhandled :: "js_error list"

text \<open>
  The first six fields are the \<^verbatim>\<open>useState\<close> cells, with their initial values below.
  \<open>srcObject\<close>, \<open>canvasSize\<close> and \<open>fileInputValue\<close> belong to the elements behind
  \<^verbatim>\<open>videoRef\<close>, \<^verbatim>\<open>canvasRef\<close> and \<^verbatim>\<open>fileInputRef\<close>. The remaining fields are traces:
  the messages passed to \<^verbatim>\<open>alert\<close>, the errors passed to \<^verbatim>\<open>console.error\<close>, the
  \<^verbatim>\<open>fetch\<close> calls with their outcomes, the number of \<^verbatim>\<open>getUserMedia\<close> calls, the
  number of \<^verbatim>\<open>setTimeout(initializeCamera, 100)\<close> calls that have not fired yet, and
  the errors of rejected promises nobody handles.
\<close>

definition initial :: state where
  "initial =
     \<lparr> loading = False, previewData = JNull, capturedBlob = None, showHistory = False,
       logs = JArr [], selectedModel = ''688-1'', srcObject = None, canvasSize = (0, 0),
       fileInputValue = [], alerts = [], console = [], network = [],
       cameraRequests = 0, pendingTimers = 0, unhandled = [] \<rparr>"

text \<open>The options of the model \<^verbatim>\<open>select\<close> element.\<close>

definition model_options :: "string list" where
  "model_options = [''688-1'', ''688-2'', ''688-3'']"

text \<open>
  What the component renders: the history list when \<^verbatim>\<open>showHistory\<close>, otherwise the
  preview image with Confirm and Retry when \<^verbatim>\<open>previewData\<close> is truthy, otherwise the
  video with the model selector, Capture and Upload. The loading overlay is drawn on top
  of any of the three while \<^verbatim>\<open>loading\<close>. \<open>view\<close> is the branch the two tests of the
  render select. It does not say that the branch renders: the history branch calls
  \<^verbatim>\<open>logs.map\<close> and reads \<^verbatim>\<open>log.Filename\<close>, which throw when \<^verbatim>\<open>logs\<close> is not an
  array or holds \<^verbatim>\<open>null\<close>, and the page is then taken down.
\<close>

datatype view = HISTORY | REVIEW | LIVE

definition view :: "state \<Rightarrow> view" where
  "view s = (if showHistory s then HISTORY
             else if truthy (previewData s) then REVIEW else LIVE)"

text \<open>
  The video element and the file input are rendered in the same case, so
  \<^verbatim>\<open>videoRef.current\<close> and \<^verbatim>\<open>fileInputRef.current\<close> are non-null exactly then.
\<close>

definition live_mounted :: "state \<Rightarrow> bool" where
  "live_mounted s = (\<not> showHistory s \<and> \<not> truthy (previewData s))"

definition alert :: "string \<Rightarrow> state \<Rightarrow> state" where
  "alert msg s = s\<lparr>alerts := alerts s @ [msg]\<rparr>"

subsection \<open>Handlers\<close>

text \<open>\<^verbatim>\<open>initializeCamera\<close>.\<close>

definition initializeCamera :: "camera_env \<Rightarrow> state \<Rightarrow> state" where
  "initializeCamera cam s =
     (case cam of
        Unsupported \<Rightarrow> alert ''Camera API not supported.'' s
      | Denied err \<Rightarrow> s\<lparr>cameraRequests := Suc (cameraRequests s), console := console s @ [err]\<rparr>
      | Granted stream \<Rightarrow>
          s\<lparr>cameraRequests := Suc (cameraRequests s),
            srcObject := (if live_mounted s then Some stream else srcObject s)\<rparr>)"

text \<open>The effect with dependencies \<^verbatim>\<open>[showHistory, previewData]\<close>.\<close>

definition useEffect :: "camera_env \<Rightarrow> state \<Rightarrow> state" where
  "useEffect cam s =
     (if \<not> showHistory s \<and> \<not> truthy (previewData s) then initializeCamera cam s else s)"

definition preview_request :: "string \<Rightarrow> blob \<Rightarrow> string \<Rightarrow> request" where
  "preview_request base b m =
     Post (base @ ''/preview'') [(''file'', FilePart b ''scan.jpg''), (''model_name'', TextPart m)]"

definition save_request :: "string \<Rightarrow> blob \<Rightarrow> string \<Rightarrow> request" where
  "save_request base b m =
     Post (base @ ''/save'') [(''file'', FilePart b ''final.jpg''), (''model_name'', TextPart m)]"

definition logs_request :: "string \<Rightarrow> request" where
  "logs_request base = Get (base @ ''/logs'')"

text \<open>
  \<^verbatim>\<open>processImageBlob\<close>. The argument is \<open>None\<close> for \<^verbatim>\<open>null\<close>, which a canvas hands to
  the callback of \<^verbatim>\<open>toBlob\<close> when it has no pixels or cannot encode them. Appending
  \<^verbatim>\<open>null\<close> with a file name to a \<^verbatim>\<open>FormData\<close> throws a \<^verbatim>\<open>TypeError\<close>; this happens
  before the \<^verbatim>\<open>try\<close>, so the promise of the function rejects with the two state updates
  done and nothing else. The result pairs that rejection with the state.
\<close>

definition processImageBlob ::
  "string \<Rightarrow> blob option \<Rightarrow> fetch_result \<Rightarrow> state \<Rightarrow> js_error option \<times> state" where
  "processImageBlob base blob res s =
     (let s1 = s\<lparr>loading := True, capturedBlob := blob\<rparr> in
      case blob of
        None \<Rightarrow> (Some ''TypeError'', s1)
      | Some b \<Rightarrow>
          let s2 = s1\<lparr>network := network s1 @ [(preview_request base b (selectedModel s), res)]\<rparr>;
              s3 = (case res of
                      NetworkError \<Rightarrow> alert ''Connection Failed.'' s2
                    | Responded ok body \<Rightarrow>
                        if \<not> ok then alert ''Connection Failed.'' s2
                        else (case body of
                                None \<Rightarrow> alert ''Connection Failed.'' s2
                              | Some data \<Rightarrow> s2\<lparr>previewData := data\<rparr>))
          in (None, s3\<lparr>loading := False\<rparr>))"

text \<open>
  The two halves of \<^verbatim>\<open>processImageBlob\<close>. The first runs at the call: the two state
  updates and the form, up to \<^verbatim>\<open>fetch\<close> being called with the request it returns. The
  second runs when that request is answered: the \<^verbatim>\<open>try\<close> block after the
  \<^verbatim>\<open>await\<close>, with \<^verbatim>\<open>catch\<close> and \<^verbatim>\<open>finally\<close>. The exchange enters the trace with
  its answer.
\<close>

definition processImageBlob_send ::
  "string \<Rightarrow> blob option \<Rightarrow> state \<Rightarrow> (js_error + request) \<times> state" where
  "processImageBlob_send base blob s =
     (let s1 = s\<lparr>loading := True, capturedBlob := blob\<rparr> in
      case blob of
        None \<Rightarrow> (Inl ''TypeError'', s1)
      | Some b \<Rightarrow> (Inr (preview_request base b (selectedModel s)), s1))"

definition processImageBlob_answer :: "request \<Rightarrow> fetch_result \<Rightarrow> state \<Rightarrow> state" where
  "processImageBlob_answer req res s =
     (let s2 = s\<lparr>network := network s @ [(req, res)]\<rparr>;
          s3 = (case res of
                  NetworkError \<Rightarrow> alert ''Connection Failed.'' s2
                | Responded ok body \<Rightarrow>
                    if \<not> ok then alert ''Connection Failed.'' s2
                    else (case body of
                            None \<Rightarrow> alert ''Connection Failed.'' s2
                          | Some data \<Rightarrow> s2\<lparr>previewData := data\<rparr>))
      in s3\<lparr>loading := False\<rparr>)"

text \<open>A caller that drops the promise: a rejection becomes an unhandled one.\<close>

definition dropped :: "js_error option \<times> state \<Rightarrow> state" where
  "dropped r = (case r of (None, s) \<Rightarrow> s | (Some e, s) \<Rightarrow> s\<lparr>unhandled := unhandled s @ [e]\<rparr>)"

text \<open>
  \<^verbatim>\<open>captureFrame\<close>. \<open>video\<close> is \<^verbatim>\<open>videoRef.current\<close> with its \<^verbatim>\<open>videoWidth\<close> and
  \<^verbatim>\<open>videoHeight\<close>; \<open>blob\<close> is what \<^verbatim>\<open>canvas.toBlob\<close> passes to its callback. The canvas
  is rendered whenever the video is.
\<close>

definition captureFrame ::
  "string \<Rightarrow> (nat \<times> nat) option \<Rightarrow> blob option \<Rightarrow> fetch_result \<Rightarrow> state \<Rightarrow> state" where
  "captureFrame base video blob res s =
     (case video of
        None \<Rightarrow> s
      | Some dims \<Rightarrow> dropped (processImageBlob base blob res (s\<lparr>canvasSize := dims\<rparr>)))"

text \<open>\<^verbatim>\<open>handleFileUpload\<close>; \<open>files\<close> is \<^verbatim>\<open>e.target.files\<close>.\<close>

definition handleFileUpload :: "string \<Rightarrow> blob list \<Rightarrow> fetch_result \<Rightarrow> state \<Rightarrow> state" where
  "handleFileUpload base files res s =
     (case files of
        [] \<Rightarrow> s
      | file # _ \<Rightarrow> dropped (processImageBlob base (Some file) res s))"

text \<open>
  \<^verbatim>\<open>resetScanner\<close>. The file input is cleared when \<^verbatim>\<open>fileInputRef.current\<close> is set,
  which is read from the page as rendered before the two state updates.
\<close>

definition resetScanner :: "state \<Rightarrow> state" where
  "resetScanner s =
     s\<lparr>previewData := JNull, capturedBlob := None,
       fileInputValue := (if live_mounted s then [] else fileInputValue s),
       pendingTimers := Suc (pendingTimers s)\<rparr>"

text \<open>\<^verbatim>\<open>confirmSave\<close>.\<close>

definition confirmSave :: "string \<Rightarrow> fetch_result \<Rightarrow> state \<Rightarrow> state" where
  "confirmSave base res s =
     (case capturedBlob s of
        None \<Rightarrow> s
      | Some b \<Rightarrow>
          let s1 = s\<lparr>loading := True\<rparr>;
              s2 = s1\<lparr>network := network s1 @ [(save_request base b (selectedModel s), res)]\<rparr>;
              s3 = (case res of
                      NetworkError \<Rightarrow> alert ''Network Error.'' s2
                    | Responded ok body \<Rightarrow>
                        if ok then resetScanner s2 else alert ''Failed to save.'' s2)
          in s3\<lparr>loading := False\<rparr>)"

text \<open>\<^verbatim>\<open>fetchHistoryLogs\<close>. The \<^verbatim>\<open>ok\<close> flag of the response is not read.\<close>

definition fetchHistoryLogs :: "string \<Rightarrow> fetch_result \<Rightarrow> state \<Rightarrow> state" where
  "fetchHistoryLogs base res s =
     (let s1 = s\<lparr>loading := True\<rparr>;
          s2 = s1\<lparr>network := network s1 @ [(logs_request base, res)]\<rparr>;
          s3 = (case res of
                  NetworkError \<Rightarrow> alert ''Failed to load logs.'' s2
                | Responded ok body \<Rightarrow>
                    (case body of
                       None \<Rightarrow> alert ''Failed to load logs.'' s2
                     | Some data \<Rightarrow> s2\<lparr>logs := data, showHistory := True\<rparr>))
      in s3\<lparr>loading := False\<rparr>)"

text \<open>\<^verbatim>\<open>toggleViewMode\<close>.\<close>

definition toggleViewMode :: "string \<Rightarrow> fetch_result \<Rightarrow> state \<Rightarrow> state" where
  "toggleViewMode base res s =
     (if showHistory s
      then s\<lparr>showHistory := False, pendingTimers := Suc (pendingTimers s)\<rparr>
      else fetchHistoryLogs base res s)"

subsection \<open>Events\<close>

text \<open>
  What the operator and the platform can do to the rendered page. Capture, Upload and the
  model selector exist in the LIVE view only, Confirm and Retry in the REVIEW view only,
  the History/Scan button of the header in every view. \<open>Timeout\<close> is a pending
  \<^verbatim>\<open>setTimeout(initializeCamera, 100)\<close> firing.
\<close>

datatype event =
    Capture "nat \<times> nat" "blob option" fetch_result
  | Upload string "blob list" fetch_result
  | SelectModel string
  | Confirm fetch_result
  | Retry
  | Toggle fetch_result
  | Timeout camera_env

definition enabled :: "event \<Rightarrow> state \<Rightarrow> bool" where
  "enabled e s =
     (case e of
        Capture dims blob res \<Rightarrow> view s = LIVE
      | Upload path files res \<Rightarrow> view s = LIVE
      | SelectModel m \<Rightarrow> view s = LIVE \<and> m \<in> set model_options
      | Confirm res \<Rightarrow> view s = REVIEW
      | Retry \<Rightarrow> view s = REVIEW
      | Toggle res \<Rightarrow> True
      | Timeout cam \<Rightarrow> 0 < pendingTimers s)"

definition handle :: "string \<Rightarrow> event \<Rightarrow> state \<Rightarrow> state" where
  "handle base e s =
     (case e of
        Capture dims blob res \<Rightarrow>
          captureFrame base (if live_mounted s then Some dims else None) blob res s
      | Upload path files res \<Rightarrow> handleFileUpload base files res (s\<lparr>fileInputValue := path\<rparr>)
      | SelectModel m \<Rightarrow> s\<lparr>selectedModel := m\<rparr>
      | Confirm res \<Rightarrow> confirmSave base res s
      | Retry \<Rightarrow> resetScanner s
      | Toggle res \<Rightarrow> toggleViewMode base res s
      | Timeout cam \<Rightarrow> initializeCamera cam (s\<lparr>pendingTimers := pendingTimers s - 1\<rparr>))"

text \<open>
  Rendering the new state: the video element and the file input leave the page with the
  LIVE view, and come back as new elements.
\<close>

definition commit :: "state \<Rightarrow> state" where
  "commit s = (if live_mounted s then s else s\<lparr>srcObject := None, fileInputValue := []\<rparr>)"

text \<open>
  One event: its handler, the render, and the effect when one of its two dependencies
  changed. \<open>cam\<close> is what the camera answers if the effect asks. React compares the
  dependencies with \<^verbatim>\<open>Object.is\<close>; the model compares the values. The two agree
  on every event of a run: a handler that stores a new object in \<^verbatim>\<open>previewData\<close> is
  offered in the LIVE view only, where the old value is falsy and so no object, and the
  other writes store \<^verbatim>\<open>null\<close>.
\<close>

definition step :: "string \<Rightarrow> camera_env \<Rightarrow> event \<Rightarrow> state \<Rightarrow> state option" where
  "step base cam e s =
     (if \<not> enabled e s then None
      else let s1 = commit (handle base e s) in
           Some (if showHistory s1 \<noteq> showHistory s \<or> previewData s1 \<noteq> previewData s
                 then useEffect cam s1 else s1))"

text \<open>The first render: the effect runs once.\<close>

definition mount :: "camera_env \<Rightarrow> state" where
  "mount cam = useEffect cam initial"

text \<open>
  A sequence of events, each handled to its end before the next one arrives. These are
  the schedules in which the operator waits for every answer; schedules in which handlers
  overlap are not among them.
\<close>

fun run :: "string \<Rightarrow> (camera_env \<times> event) list \<Rightarrow> state \<Rightarrow> state option" where
  "run base [] s = Some s"
| "run base ((cam, e) # es) s =
     (case step base cam e s of None \<Rightarrow> None | Some s' \<Rightarrow> run base es s')"

section \<open>Basic facts\<close>

lemmas handler_defs =
  initializeCamera_def useEffect_def processImageBlob_def dropped_def captureFrame_def
  handleFileUpload_def resetScanner_def confirmSave_def fetchHistoryLogs_def
  toggleViewMode_def alert_def live_mounted_def view_def

lemmas step_defs = step_def enabled_def handle_def commit_def mount_def initial_def

lemma initializeCamera_fields [simp]:
  "previewData (initializeCamera cam s) = previewData s"
  "capturedBlob (initializeCamera cam s) = capturedBlob s"
  "selectedModel (initializeCamera cam s) = selectedModel s"
  "network (initializeCamera cam s) = network s"
  "showHistory (initializeCamera cam s) = showHistory s"
  "loading (initializeCamera cam s) = loading s"
  "pendingTimers (initializeCamera cam s) = pendingTimers s"
  by (simp_all add: initializeCamera_def alert_def split: camera_env.splits)

lemma useEffect_fields [simp]:
  "previewData (useEffect cam s) = previewData s"
  "capturedBlob (useEffect cam s) = capturedBlob s"
  "selectedModel (useEffect cam s) = selectedModel s"
  "network (useEffect cam s) = network s"
  "showHistory (useEffect cam s) = showHistory s"
  "loading (useEffect cam s) = loading s"
  "pendingTimers (useEffect cam s) = pendingTimers s"
  by (simp_all add: useEffect_def)

lemma commit_fields [simp]:
  "previewData (commit s) = previewData s"
  "capturedBlob (commit s) = capturedBlob s"
  "selectedModel (commit s) = selectedModel s"
  "network (commit s) = network s"
  "showHistory (commit s) = showHistory s"
  "loading (commit s) = loading s"
  "pendingTimers (commit s) = pendingTimers s"
  "alerts (commit s) = alerts s"
  "console (commit s) = console s"
  "cameraRequests (commit s) = cameraRequests s"
  by (simp_all add: commit_def)

lemma view_cong:
  "showHistory t = showHistory s \<Longrightarrow> previewData t = previewData s \<Longrightarrow> view t = view s"
  by (simp add: view_def)

lemma view_initializeCamera [simp]: "view (initializeCamera cam s) = view s"
  by (rule view_cong) simp_all

lemma view_useEffect [simp]: "view (useEffect cam s) = view s"
  by (rule view_cong) simp_all

lemma view_commit [simp]: "view (commit s) = view s"
  by (rule view_cong) simp_all

lemma step_enabled: "step base cam e s = Some s' \<Longrightarrow> enabled e s"
  by (simp add: step_def split: if_splits)

lemma step_cases:
  assumes "step base cam e s = Some s'"
  shows "s' = commit (handle base e s) \<or> s' = useEffect cam (commit (handle base e s))"
  using assms by (auto simp: step_def Let_def split: if_splits)

lemma step_fields:
  assumes "step base cam e s = Some s'"
  shows "previewData s' = previewData (handle base e s)"
    and "capturedBlob s' = capturedBlob (handle base e s)"
    and "selectedModel s' = selectedModel (handle base e s)"
    and "network s' = network (handle base e s)"
    and "showHistory s' = showHistory (handle base e s)"
    and "loading s' = loading (handle base e s)"
    and "pendingTimers s' = pendingTimers (handle base e s)"
    and "view s' = view (handle base e s)"
  using step_cases [OF assms] by auto

lemma processImageBlob_halves:
  "processImageBlob base (Some b) res s =
     (None,
      processImageBlob_answer (preview_request base b (selectedModel s)) res
        (snd (processImageBlob_send base (Some b) s)))"
  "processImageBlob base None res s =
     (Some ''TypeError'', snd (processImageBlob_send base None s))"
  "fst (processImageBlob_send base (Some b) s) = Inr (preview_request base b (selectedModel s))"
  by (simp_all add: processImageBlob_def processImageBlob_send_def processImageBlob_answer_def
      alert_def Let_def split: fetch_result.split option.split)

section \<open>Failing requests\<close>

text \<open>
  C10. If the logs fetch throws (the request cannot be sent, or the body of the response
  does not decode as JSON), the client does not enter the history view and the stored
  logs are unchanged: of the React state only the loading flag is written (to false), the
  operator stays in the view they were in, and one notification ``Failed to load logs.''
  is shown.
\<close>

theorem fetchHistoryLogs_throws:
  assumes "res = NetworkError \<or> res = Responded ok None"
  shows "fetchHistoryLogs base res s =
           s\<lparr>loading := False, alerts := alerts s @ [''Failed to load logs.''],
             network := network s @ [(logs_request base, res)]\<rparr>
         \<and> showHistory (fetchHistoryLogs base res s) = showHistory s
         \<and> logs (fetchHistoryLogs base res s) = logs s
         \<and> view (fetchHistoryLogs base res s) = view s"
  using assms by (auto simp: fetchHistoryLogs_def alert_def view_def)

theorem fetchHistoryLogs_throws_witness:
  "fetchHistoryLogs ''https://qc.example'' (Responded True None) (mount (Granted 1)) =
     (mount (Granted 1))
       \<lparr>alerts := [''Failed to load logs.''],
        network := [(Get ''https://qc.example/logs'', Responded True None)]\<rparr>
   \<and> view (fetchHistoryLogs ''https://qc.example'' (Responded True None) (mount (Granted 1))) = LIVE"
  using fetchHistoryLogs_throws [of "Responded True None" True "''https://qc.example''" "mount (Granted 1)"]
  by (simp add: handler_defs step_defs logs_request_def)

text \<open>
  C6. When the save call fails (the request cannot be sent, or the response is not a
  success), the client shows a failure notification and stays in the view it was in: the
  stored Preview Result and the captured image buffer are unchanged, and no camera
  request is scheduled.
\<close>

theorem confirmSave_failure:
  assumes "res = NetworkError \<or> res = Responded False body"
    and "capturedBlob s = Some b"
  shows "confirmSave base res s =
           s\<lparr>loading := False,
             alerts := alerts s @
               [if res = NetworkError then ''Network Error.'' else ''Failed to save.''],
             network := network s @ [(save_request base b (selectedModel s), res)]\<rparr>
         \<and> previewData (confirmSave base res s) = previewData s
         \<and> capturedBlob (confirmSave base res s) = capturedBlob s
         \<and> view (confirmSave base res s) = view s"
  using assms by (auto simp: confirmSave_def alert_def view_def)

theorem confirmSave_failure_witness:
  "view (confirmSave ''https://qc.example'' (Responded False None)
          (initial\<lparr>previewData := JObj [(''status'', JStr ''fail'')],
                   capturedBlob := Some (Blob [255, 216, 255])\<rparr>)) = REVIEW
   \<and> capturedBlob (confirmSave ''https://qc.example'' (Responded False None)
          (initial\<lparr>previewData := JObj [(''status'', JStr ''fail'')],
                   capturedBlob := Some (Blob [255, 216, 255])\<rparr>)) = Some (Blob [255, 216, 255])
   \<and> alerts (confirmSave ''https://qc.example'' (Responded False None)
          (initial\<lparr>previewData := JObj [(''status'', JStr ''fail'')],
                   capturedBlob := Some (Blob [255, 216, 255])\<rparr>)) = [''Failed to save.'']"
  using confirmSave_failure [of "Responded False None" None
      "initial\<lparr>previewData := JObj [(''status'', JStr ''fail'')],
               capturedBlob := Some (Blob [255, 216, 255])\<rparr>"
      "Blob [255, 216, 255]" "''https://qc.example''"]
  by (simp add: initial_def view_def)

text \<open>
  C1, as amended. When the preview request fails (the request cannot be sent, the
  response is not a success, or its body does not decode as JSON), the client shows the
  notification ``Connection Failed.'', resets the loading flag and stores no Preview
  Result, so that the view is the one before the call: a client in LIVE stays in LIVE and
  does not enter REVIEW. The captured image buffer is not discarded: it holds the image
  that was just sent.
\<close>

theorem preview_failure_keeps_buffer:
  assumes "res = NetworkError \<or> res = Responded False body \<or> res = Responded True None"
  shows "processImageBlob base (Some b) res s =
           (None,
            s\<lparr>loading := False, capturedBlob := Some b,
              alerts := alerts s @ [''Connection Failed.''],
              network := network s @ [(preview_request base b (selectedModel s), res)]\<rparr>)
         \<and> previewData (snd (processImageBlob base (Some b) res s)) = previewData s
         \<and> view (snd (processImageBlob base (Some b) res s)) = view s
         \<and> capturedBlob (snd (processImageBlob base (Some b) res s)) = Some b"
  using assms by (auto simp: processImageBlob_def alert_def view_def Let_def)

theorem preview_failure_keeps_buffer_witness:
  "view (snd (processImageBlob ''https://qc.example'' (Some (Blob [255, 216, 255]))
            (Responded False None) (mount (Granted 1)))) = LIVE
   \<and> alerts (snd (processImageBlob ''https://qc.example'' (Some (Blob [255, 216, 255]))
            (Responded False None) (mount (Granted 1)))) = [''Connection Failed.'']
   \<and> capturedBlob (snd (processImageBlob ''https://qc.example'' (Some (Blob [255, 216, 255]))
            (Responded False None) (mount (Granted 1)))) = Some (Blob [255, 216, 255])"
  using preview_failure_keeps_buffer [of "Responded False None" None "''https://qc.example''"
      "Blob [255, 216, 255]" "mount (Granted 1)"]
  by (simp add: handler_defs step_defs)

text \<open>
  C1 as stated fails: after a preview answered with HTTP 500 the captured image buffer
  is not cleared.
\<close>

theorem preview_failure_clears_buffer_counterexample:
  "capturedBlob (snd (processImageBlob ''https://qc.example'' (Some (Blob [255, 216, 255]))
      (Responded False (Some (JObj [(''detail'', JStr ''Internal Server Error'')])))
      (mount (Granted 1)))) \<noteq> None"
  by (simp add: processImageBlob_def alert_def Let_def)

section \<open>Requests and what they carry\<close>

text \<open>
  C5, as amended. For every capture action for which the video element is present and the
  canvas hands an encoded image to the callback, and for every file-upload action with a
  file selected, exactly one preview request is issued; its multipart body carries the
  image as \<^verbatim>\<open>file\<close> and the currently selected model identifier as \<^verbatim>\<open>model_name\<close>.
\<close>

theorem one_preview_per_image:
  "network (captureFrame base (Some dims) (Some b) res s) =
     network s @
       [(Post (base @ ''/preview'')
           [(''file'', FilePart b ''scan.jpg''), (''model_name'', TextPart (selectedModel s))],
         res)]
   \<and> network (handleFileUpload base (file # files) res s) =
     network s @
       [(Post (base @ ''/preview'')
           [(''file'', FilePart file ''scan.jpg''), (''model_name'', TextPart (selectedModel s))],
         res)]"
  by (simp add: captureFrame_def handleFileUpload_def processImageBlob_def dropped_def
      alert_def preview_request_def Let_def split: fetch_result.split option.split)

text \<open>
  C5 as stated fails: a capture action issues no preview request when the canvas has no
  frame to encode (the camera was denied, the video has no dimensions and the callback of
  \<^verbatim>\<open>toBlob\<close> receives \<^verbatim>\<open>null\<close>), nor when there is no video element.
\<close>

theorem capture_without_preview_counterexample:
  "network (captureFrame ''https://qc.example'' (Some (0, 0)) None
      (Responded True (Some (JObj [(''status'', JStr ''pass'')])))
      (mount (Denied ''NotAllowedError''))) = []
   \<and> network (captureFrame ''https://qc.example'' None (Some (Blob [255, 216, 255]))
      (Responded True (Some (JObj [(''status'', JStr ''pass'')])))
      (mount (Denied ''NotAllowedError''))) = []"
  by (simp add: handler_defs step_defs)

section \<open>The camera\<close>

text \<open>
  C2, at the failing input. The camera permission is denied at the first render: the
  effect calls \<^verbatim>\<open>initializeCamera\<close>, the camera is requested once, the error of the
  rejected request is written to the console, and no notification is shown to the
  operator.
\<close>

theorem camera_denied_not_surfaced:
  "cameraRequests (mount (Denied ''NotAllowedError'')) = 1
   \<and> alerts (mount (Denied ''NotAllowedError'')) = []
   \<and> console (mount (Denied ''NotAllowedError'')) = [''NotAllowedError'']"
  by (simp add: mount_def useEffect_def initial_def initializeCamera_def)

text \<open>
  C9, at the failing input. An image is uploaded and its preview succeeds, the operator
  opens the history and goes back: the view is REVIEW again, the Preview Result is still
  held, and the timer set by \<^verbatim>\<open>toggleViewMode\<close> calls \<^verbatim>\<open>initializeCamera\<close>, which
  requests the camera a second time (the first request is the one of the first render).
\<close>

theorem camera_requested_in_review:
  "(case run ''https://qc.example''
           [(Granted 1, Upload ''part.jpg'' [Blob [255, 216, 255]]
               (Responded True (Some (JObj [(''status'', JStr ''pass'')])))),
            (Granted 1, Toggle (Responded True (Some (JArr [])))),
            (Granted 1, Toggle NetworkError)]
           (mount (Granted 1)) of
      None \<Rightarrow> False
    | Some s \<Rightarrow>
        view s = REVIEW \<and> previewData s = JObj [(''status'', JStr ''pass'')]
        \<and> cameraRequests s = 1 \<and> pendingTimers s = 1)
   \<and> (case run ''https://qc.example''
           [(Granted 1, Upload ''part.jpg'' [Blob [255, 216, 255]]
               (Responded True (Some (JObj [(''status'', JStr ''pass'')])))),
            (Granted 1, Toggle (Responded True (Some (JArr [])))),
            (Granted 1, Toggle NetworkError),
            (Granted 1, Timeout (Granted 2))]
           (mount (Granted 1)) of
      None \<Rightarrow> False
    | Some s \<Rightarrow>
        view s = REVIEW \<and> previewData s = JObj [(''status'', JStr ''pass'')]
        \<and> cameraRequests s = 2 \<and> pendingTimers s = 0)"
  by (simp add: step_defs handler_defs preview_request_def logs_request_def Let_def)

section \<open>Leaving the review\<close>

text \<open>
  C7. The retry action always returns the client to LIVE: the Preview Result and the
  captured image buffer are cleared, \<^verbatim>\<open>initializeCamera\<close> is called by the effect and
  once more scheduled by a timer. After a retry a confirm action cannot reuse the discarded
  buffer: the Confirm button is gone, and \<^verbatim>\<open>confirmSave\<close> on the state issues no save
  call (it changes nothing).
\<close>

theorem retry_returns_to_live:
  assumes "step base cam Retry s = Some s'"
  shows "initializeCamera cam (resetScanner s) = s'
         \<and> view s' = LIVE \<and> previewData s' = JNull \<and> capturedBlob s' = None
         \<and> pendingTimers s' = Suc (pendingTimers s)
         \<and> cameraRequests s' =
             (case cam of Unsupported \<Rightarrow> cameraRequests s | Denied err \<Rightarrow> Suc (cameraRequests s)
              | Granted stream \<Rightarrow> Suc (cameraRequests s))
         \<and> confirmSave base res s' = s'
         \<and> step base cam' (Confirm res) s' = None
         \<and> previewData (resetScanner t) = JNull \<and> capturedBlob (resetScanner t) = None
         \<and> pendingTimers (resetScanner t) = Suc (pendingTimers t)
         \<and> network (confirmSave base res (resetScanner t)) = network t"
proof -
  from step_enabled [OF assms] have rv: "view s = REVIEW" by (simp add: enabled_def)
  then have tr: "\<not> showHistory s \<and> truthy (previewData s)"
    by (auto simp: view_def split: if_splits)
  then have ne: "previewData s \<noteq> JNull" by auto
  from tr have c: "commit (resetScanner s) = resetScanner s"
    by (simp add: commit_def resetScanner_def live_mounted_def)
  have h: "handle base Retry s = resetScanner s" by (simp add: handle_def)
  have pd: "previewData (resetScanner s) = JNull" "showHistory (resetScanner s) = showHistory s"
    by (simp_all add: resetScanner_def)
  from assms step_enabled [OF assms] ne have "s' = useEffect cam (resetScanner s)"
    by (simp add: step_def h c pd)
  with tr have s': "s' = initializeCamera cam (resetScanner s)"
    by (simp add: useEffect_def pd)
  have gen: "previewData (resetScanner t) = JNull \<and> capturedBlob (resetScanner t) = None
         \<and> pendingTimers (resetScanner t) = Suc (pendingTimers t)
         \<and> network (confirmSave base res (resetScanner t)) = network t"
    by (simp add: resetScanner_def confirmSave_def)
  from s' tr have f: "view s' = LIVE \<and> previewData s' = JNull \<and> capturedBlob s' = None
      \<and> pendingTimers s' = Suc (pendingTimers s)"
    by (simp add: view_def resetScanner_def)
  then have "confirmSave base res s' = s'" "step base cam' (Confirm res) s' = None"
    by (simp_all add: confirmSave_def step_def enabled_def)
  moreover from s' have "cameraRequests s' =
             (case cam of Unsupported \<Rightarrow> cameraRequests s | Denied err \<Rightarrow> Suc (cameraRequests s)
              | Granted stream \<Rightarrow> Suc (cameraRequests s))"
    by (simp add: initializeCamera_def resetScanner_def alert_def split: camera_env.split)
  ultimately show ?thesis using s' f gen by simp
qed

theorem retry_returns_to_live_witness:
  "\<exists>s'. step ''https://qc.example'' (Granted 2) Retry
          (initial\<lparr>previewData := JObj [(''status'', JStr ''fail'')],
                   capturedBlob := Some (Blob [255, 216, 255])\<rparr>) = Some s'
        \<and> view s' = LIVE \<and> capturedBlob s' = None \<and> pendingTimers s' = 1
        \<and> cameraRequests s' = 1
        \<and> network (confirmSave ''https://qc.example'' (Responded True None) s') = []"
proof -
  let ?s = "initial\<lparr>previewData := JObj [(''status'', JStr ''fail'')],
                    capturedBlob := Some (Blob [255, 216, 255])\<rparr>"
  obtain s' where st: "step ''https://qc.example'' (Granted 2) Retry ?s = Some s'"
    by (simp add: step_defs handler_defs)
  have n: "network s' = []"
    using step_fields(4) [OF st] by (simp add: handle_def resetScanner_def initial_def)
  from retry_returns_to_live [OF st, where res = "Responded True None"] n
  have "view s' = LIVE \<and> capturedBlob s' = None \<and> pendingTimers s' = 1
        \<and> cameraRequests s' = 1
        \<and> network (confirmSave ''https://qc.example'' (Responded True None) s') = []"
    by (simp add: initial_def)
  with st show ?thesis by blast
qed



section \<open>Overlapping previews\<close>

text \<open>
  C4, at the failing input. Capture is clicked twice before the canvas has encoded the
  first frame. Both callbacks of \<^verbatim>\<open>toBlob\<close> run \<^verbatim>\<open>processImageBlob\<close> up to its
  \<^verbatim>\<open>fetch\<close>, the first with image A, the second with image B. The preview of A
  succeeds, then the preview of B fails. The Preview Result on display is the one of A,
  the stored blob is B, and Confirm sends B.
\<close>

theorem overlapping_previews_confirm_sends_other_image:
  "(let s0 = (mount (Granted 1))\<lparr>canvasSize := (640, 480)\<rparr>;
        (rA, s1) = processImageBlob_send ''https://qc.example'' (Some (Blob [255, 216, 1])) s0;
        (rB, s2) = processImageBlob_send ''https://qc.example'' (Some (Blob [255, 216, 2])) s1;
        s3 = processImageBlob_answer (preview_request ''https://qc.example'' (Blob [255, 216, 1]) ''688-1'')
               (Responded True (Some (JObj [(''status'', JStr ''pass'')]))) s2;
        s4 = processImageBlob_answer (preview_request ''https://qc.example'' (Blob [255, 216, 2]) ''688-1'')
               (Responded False None) s3
    in rA = Inr (preview_request ''https://qc.example'' (Blob [255, 216, 1]) ''688-1'')
       \<and> rB = Inr (preview_request ''https://qc.example'' (Blob [255, 216, 2]) ''688-1'')
       \<and> view s4 = REVIEW
       \<and> previewData s4 = JObj [(''status'', JStr ''pass'')]
       \<and> capturedBlob s4 = Some (Blob [255, 216, 2])
       \<and> network s4 =
           [(Post ''https://qc.example/preview''
               [(''file'', FilePart (Blob [255, 216, 1]) ''scan.jpg''),
                (''model_name'', TextPart ''688-1'')],
             Responded True (Some (JObj [(''status'', JStr ''pass'')]))),
            (Post ''https://qc.example/preview''
               [(''file'', FilePart (Blob [255, 216, 2]) ''scan.jpg''),
                (''model_name'', TextPart ''688-1'')],
             Responded False None)]
       \<and> network (confirmSave ''https://qc.example'' (Responded True None) s4) =
           network s4 @
             [(Post ''https://qc.example/save''
                 [(''file'', FilePart (Blob [255, 216, 2]) ''final.jpg''),
                  (''model_name'', TextPart ''688-1'')],
               Responded True None)])"
  by (simp add: processImageBlob_send_def processImageBlob_answer_def handler_defs step_defs
      preview_request_def save_request_def Let_def)

section \<open>The logs fetch and the response status\<close>

text \<open>
  C3, at the failing input. The logs fetch is answered with HTTP 500 and the JSON body
  \<^verbatim>\<open>[]\<close>: no notification is shown, the body of the error response is stored as the
  list of logs and \<^verbatim>\<open>showHistory\<close> is set, so the history is shown with no records.
\<close>

theorem logs_error_response_shown_as_history:
  "alerts (fetchHistoryLogs ''https://qc.example'' (Responded False (Some (JArr [])))
      (mount (Granted 1))) = []
   \<and> logs (fetchHistoryLogs ''https://qc.example'' (Responded False (Some (JArr [])))
      (mount (Granted 1))) = JArr []
   \<and> showHistory (fetchHistoryLogs ''https://qc.example'' (Responded False (Some (JArr [])))
      (mount (Granted 1))) = True
   \<and> network (fetchHistoryLogs ''https://qc.example'' (Responded False (Some (JArr [])))
      (mount (Granted 1))) = [(Get ''https://qc.example/logs'', Responded False (Some (JArr [])))]"
  by (simp add: handler_defs step_defs logs_request_def)

end
